theory Spec2Isabelle
  imports Main "HOL-Library.Word"
begin

unbundle bit_operations_syntax

chapter \<open>Cross-chain hash time locked escrows between Ethereum and Sui\<close>

text \<open>
  A shallow embedding of the escrow contracts of both ledgers, of the JavaScript hash and
  timeout utilities, of the relayer's retry loop and of the resolver's per-swap monitoring
  step, followed by the theorems that settle the claims of the specification.
\<close>

section \<open>Bytes and the hash primitives of the platforms\<close>

type_synonym byte = "8 word"

text \<open>
  Move's \<open>String\<close> holds UTF-8 bytes, Solidity's \<open>abi.encodePacked\<close> of a string yields
  them and Node's \<open>update(input, 'utf8')\<close> produces them. A \<open>string\<close> here is that byte
  sequence, one \<open>char\<close> per byte.
\<close>

definition utf8_bytes :: "string \<Rightarrow> byte list" where
  "utf8_bytes s = map (\<lambda>c. of_nat (of_char c)) s"

subsection \<open>SHA-256\<close>

text \<open>
  The primitives are not code of the repository: \<open>crypto.createHash\<close> of Node, the
  \<open>sha256\<close> precompile and the \<open>keccak256\<close> opcode of the EVM, \<open>sui::hash::keccak256\<close>.
  They are written out from their standards (FIPS 180-4, FIPS 202 and the Keccak
  submission) so that digests can be computed. Words are natural numbers, reduced modulo
  \<open>2 ^ 32\<close> or \<open>2 ^ 64\<close> where the standard wraps.
\<close>

definition add32 :: "nat \<Rightarrow> nat \<Rightarrow> nat" where
  "add32 a b = (a + b) mod 2 ^ 32"

definition rotr32 :: "nat \<Rightarrow> nat \<Rightarrow> nat" where
  "rotr32 n x = x div 2 ^ n + (x * 2 ^ (32 - n)) mod 2 ^ 32"

text \<open>\<open>choose32 e f g\<close> takes the bits of \<open>f\<close> where \<open>e\<close> is set and those of \<open>g\<close> elsewhere.\<close>

definition choose32 :: "nat \<Rightarrow> nat \<Rightarrow> nat \<Rightarrow> nat" where
  "choose32 e f g = (e AND f) XOR ((e AND g) XOR g)"

definition majority32 :: "nat \<Rightarrow> nat \<Rightarrow> nat \<Rightarrow> nat" where
  "majority32 a b c = (a AND b) XOR ((a XOR b) AND c)"

definition bsig0 :: "nat \<Rightarrow> nat" where
  "bsig0 x = rotr32 2 x XOR rotr32 13 x XOR rotr32 22 x"

definition bsig1 :: "nat \<Rightarrow> nat" where
  "bsig1 x = rotr32 6 x XOR rotr32 11 x XOR rotr32 25 x"

definition ssig0 :: "nat \<Rightarrow> nat" where
  "ssig0 x = rotr32 7 x XOR rotr32 18 x XOR x div 2 ^ 3"

definition ssig1 :: "nat \<Rightarrow> nat" where
  "ssig1 x = rotr32 17 x XOR rotr32 19 x XOR x div 2 ^ 10"

definition sha256_round_constants :: "nat list" where
  "sha256_round_constants = [
    1116352408, 1899447441, 3049323471, 3921009573, 961987163, 1508970993,
    2453635748, 2870763221, 3624381080, 310598401, 607225278, 1426881987,
    1925078388, 2162078206, 2614888103, 3248222580, 3835390401, 4022224774,
    264347078, 604807628, 770255983, 1249150122, 1555081692, 1996064986,
    2554220882, 2821834349, 2952996808, 3210313671, 3336571891, 3584528711,
    113926993, 338241895, 666307205, 773529912, 1294757372, 1396182291,
    1695183700, 1986661051, 2177026350, 2456956037, 2730485921, 2820302411,
    3259730800, 3345764771, 3516065817, 3600352804, 4094571909, 275423344,
    430227734, 506948616, 659060556, 883997877, 958139571, 1322822218,
    1537002063, 1747873779, 1955562222, 2024104815, 2227730452, 2361852424,
    2428436474, 2756734187, 3204031479, 3329325298]"

definition sha256_initial :: "nat list" where
  "sha256_initial = [
    1779033703, 3144134277, 1013904242, 2773480762,
    1359893119, 2600822924, 528734635, 1541459225]"

fun be_words :: "nat list \<Rightarrow> nat list" where
  "be_words (a # b # c # d # bs) = (((a * 256 + b) * 256 + c) * 256 + d) # be_words bs"
| "be_words bs = []"

definition be_bytes4 :: "nat \<Rightarrow> nat list" where
  "be_bytes4 w = [w div 2 ^ 24 mod 256, w div 2 ^ 16 mod 256, w div 2 ^ 8 mod 256, w mod 256]"

definition be_bytes8 :: "nat \<Rightarrow> nat list" where
  "be_bytes8 w = be_bytes4 (w div 2 ^ 32 mod 2 ^ 32) @ be_bytes4 (w mod 2 ^ 32)"

definition sha_pad :: "nat list \<Rightarrow> nat list" where
  "sha_pad m = m @ [128] @ replicate ((119 - length m mod 64) mod 64) 0
                 @ be_bytes8 (8 * length m)"

function blocks :: "nat \<Rightarrow> 'a list \<Rightarrow> 'a list list" where
  "blocks k xs = (if k = 0 \<or> length xs < k then [] else take k xs # blocks k (drop k xs))"
  by pat_completeness auto
termination
  by (relation "measure (\<lambda>(k, xs). length xs)") auto

declare blocks.simps [simp del]

text \<open>The message schedule, most recent word first: one new word per remaining round.\<close>

fun extend_schedule :: "'a list \<Rightarrow> nat list \<Rightarrow> nat list" where
  "extend_schedule [] ws = ws"
| "extend_schedule (k # ks) ws =
     extend_schedule ks
       (add32 (add32 (ssig1 (ws ! 1)) (ws ! 6)) (add32 (ssig0 (ws ! 14)) (ws ! 15)) # ws)"

fun round_out :: "nat list \<Rightarrow> nat \<Rightarrow> nat \<Rightarrow> nat list" where
  "round_out [a, b, c, d, e, f, g, h] t1 t2 = [add32 t1 t2, a, b, c, add32 d t1, e, f, g]"
| "round_out s t1 t2 = s"

fun sha256_round :: "nat list \<Rightarrow> nat \<times> nat \<Rightarrow> nat list" where
  "sha256_round [a, b, c, d, e, f, g, h] (k, w) =
     round_out [a, b, c, d, e, f, g, h]
       (add32 (add32 (add32 h (bsig1 e)) (add32 (choose32 e f g) k)) w)
       (add32 (bsig0 a) (majority32 a b c))"
| "sha256_round s kw = s"

definition sha256_compress :: "nat list \<Rightarrow> nat list \<Rightarrow> nat list" where
  "sha256_compress hs blk =
     map2 add32 hs
       (foldl sha256_round hs
          (zip sha256_round_constants
             (rev (extend_schedule (drop 16 sha256_round_constants) (rev (be_words blk))))))"

definition sha256_nat :: "nat list \<Rightarrow> nat list" where
  "sha256_nat m =
     concat (map be_bytes4 (foldl sha256_compress sha256_initial (blocks 64 (sha_pad m))))"

definition sha2_256 :: "byte list \<Rightarrow> byte list" where
  "sha2_256 m = map of_nat (sha256_nat (map unat m))"

subsection \<open>Keccak-256 and SHA3-256\<close>

definition rotl64 :: "nat \<Rightarrow> nat \<Rightarrow> nat" where
  "rotl64 n x = (x * 2 ^ n) mod 2 ^ 64 + x div 2 ^ (64 - n)"

definition andn :: "nat \<Rightarrow> nat \<Rightarrow> nat" where
  "andn a b = (a AND b) XOR b"

definition keccak_round_constants :: "nat list" where
  "keccak_round_constants = [
    1, 32898, 9223372036854808714,
    9223372039002292224, 32907, 2147483649,
    9223372039002292353, 9223372036854808585, 138,
    136, 2147516425, 2147483658,
    2147516555, 9223372036854775947, 9223372036854808713,
    9223372036854808579, 9223372036854808578, 9223372036854775936,
    32778, 9223372039002259466, 9223372039002292353,
    9223372036854808704, 2147483649, 9223372039002292232]"

text \<open>
  The state is the list of the 25 lanes, lane \<open>(x, y)\<close> at index \<open>x + 5 * y\<close>. For each
  target lane of the steps rho and pi, the table gives the source lane and its rotation.
\<close>

definition rho_pi_table :: "(nat \<times> nat) list" where
  "rho_pi_table =
    [(0, 0), (6, 44), (12, 43), (18, 21), (24, 14),
     (3, 28), (9, 20), (10, 3), (16, 45), (22, 61),
     (1, 1), (7, 6), (13, 25), (19, 8), (20, 18),
     (4, 27), (5, 36), (11, 10), (17, 15), (23, 56),
     (2, 62), (8, 55), (14, 39), (15, 41), (21, 2)]"

fun xor_rows :: "nat list \<Rightarrow> nat list list \<Rightarrow> nat list" where
  "xor_rows c [] = c"
| "xor_rows c (r # rs) = xor_rows (map2 (XOR) c r) rs"

fun theta_d :: "nat list \<Rightarrow> nat list" where
  "theta_d [c0, c1, c2, c3, c4] =
     [c4 XOR rotl64 1 c1, c0 XOR rotl64 1 c2, c1 XOR rotl64 1 c3, c2 XOR rotl64 1 c4,
      c3 XOR rotl64 1 c0]"
| "theta_d c = c"

fun xor_each :: "nat list \<Rightarrow> nat list list \<Rightarrow> nat list" where
  "xor_each d [] = []"
| "xor_each d (r # rs) = map2 (XOR) r d @ xor_each d rs"

definition theta :: "nat list \<Rightarrow> nat list" where
  "theta a = xor_each (theta_d (xor_rows [0, 0, 0, 0, 0] (blocks 5 a))) (blocks 5 a)"

fun rho_pi_pick :: "(nat \<times> nat) list \<Rightarrow> nat list \<Rightarrow> nat list" where
  "rho_pi_pick [] a = []"
| "rho_pi_pick ((j, r) # ps) a = rotl64 r (a ! j) # rho_pi_pick ps a"

definition rho_pi :: "nat list \<Rightarrow> nat list" where
  "rho_pi a = rho_pi_pick rho_pi_table a"

fun chi_row :: "nat list \<Rightarrow> nat list" where
  "chi_row [b0, b1, b2, b3, b4] =
     [b0 XOR andn b1 b2, b1 XOR andn b2 b3, b2 XOR andn b3 b4, b3 XOR andn b4 b0,
      b4 XOR andn b0 b1]"
| "chi_row b = b"

definition chi :: "nat list \<Rightarrow> nat list" where
  "chi b = concat (map chi_row (blocks 5 b))"

fun iota :: "nat \<Rightarrow> nat list \<Rightarrow> nat list" where
  "iota rc [] = []"
| "iota rc (a0 # a) = (a0 XOR rc) # a"

definition keccak_round :: "nat list \<Rightarrow> nat \<Rightarrow> nat list" where
  "keccak_round a rc = iota rc (chi (rho_pi (theta a)))"

definition keccak_f :: "nat list \<Rightarrow> nat list" where
  "keccak_f a = foldl keccak_round a keccak_round_constants"

fun le_lanes :: "nat list \<Rightarrow> nat list" where
  "le_lanes (b0 # b1 # b2 # b3 # b4 # b5 # b6 # b7 # bs) =
     (b0 + 256 * (b1 + 256 * (b2 + 256 * (b3 + 256 * (b4 + 256 * (b5 + 256 * (b6 + 256 * b7)))))))
       # le_lanes bs"
| "le_lanes bs = []"

definition le_bytes8 :: "nat \<Rightarrow> nat list" where
  "le_bytes8 w = rev (be_bytes8 w)"

text \<open>
  Padding to the rate of 136 bytes. The domain suffix is 1 for Keccak-256 (Ethereum, Sui)
  and 6 for SHA3-256 (Node's \<open>'sha3-256'\<close>).
\<close>

definition sponge_pad :: "nat \<Rightarrow> nat list \<Rightarrow> nat list" where
  "sponge_pad suffix m =
     (if length m mod 136 = 135 then m @ [suffix + 128]
      else m @ [suffix] @ replicate (134 - length m mod 136) 0 @ [128])"

definition absorb :: "nat list \<Rightarrow> nat list \<Rightarrow> nat list" where
  "absorb a blk = keccak_f (map2 (XOR) a (le_lanes blk @ [0, 0, 0, 0, 0, 0, 0, 0]))"

definition sponge256 :: "nat \<Rightarrow> nat list \<Rightarrow> nat list" where
  "sponge256 suffix m =
     concat (map le_bytes8 (take 4
       (foldl absorb (replicate 25 0) (blocks 136 (sponge_pad suffix m)))))"

definition keccak_256 :: "byte list \<Rightarrow> byte list" where
  "keccak_256 m = map of_nat (sponge256 1 (map unat m))"

definition sha3_256 :: "byte list \<Rightarrow> byte list" where
  "sha3_256 m = map of_nat (sponge256 6 (map unat m))"

section \<open>The hash utilities of the two ledgers\<close>

subsection \<open>Sui: module \<open>sui_resolver::hash_utility\<close>\<close>

text \<open>
  Both the keccak256 and the "sha256" entry points call \<open>hash::keccak256\<close>; the source
  notes: "Sui doesn't have native sha256, so we use keccak256 for now".
\<close>

definition calculate_hash :: "string \<Rightarrow> byte list" where
  "calculate_hash key = keccak_256 (utf8_bytes key)"

definition calculate_sha256_hash :: "string \<Rightarrow> byte list" where
  "calculate_sha256_hash key = keccak_256 (utf8_bytes key)"

definition calculate_hash_from_bytes :: "byte list \<Rightarrow> byte list" where
  "calculate_hash_from_bytes data = keccak_256 data"

definition calculate_sha256_from_bytes :: "byte list \<Rightarrow> byte list" where
  "calculate_sha256_from_bytes data = keccak_256 data"

definition verify_secret :: "string \<Rightarrow> byte list \<Rightarrow> bool" where
  "verify_secret secret expected_hash = (calculate_hash secret = expected_hash)"

definition verify_secret_sha256 :: "string \<Rightarrow> byte list \<Rightarrow> bool" where
  "verify_secret_sha256 secret expected_hash = (calculate_sha256_hash secret = expected_hash)"

subsection \<open>JavaScript: class \<open>HashUtility\<close>\<close>

text \<open>
  The input of a hash method is a string (hashed as UTF-8) or a buffer. The method named
  \<open>keccak256\<close> asks Node for \<open>'sha3-256'\<close>. \<open>Buffer.equals\<close> compares the bytes.
\<close>

datatype hash_input = Str string | Buf "byte list"

definition HashUtility_keccak256 :: "hash_input \<Rightarrow> byte list" where
  "HashUtility_keccak256 input =
     (case input of Str s \<Rightarrow> sha3_256 (utf8_bytes s) | Buf b \<Rightarrow> sha3_256 b)"

definition HashUtility_sha256 :: "hash_input \<Rightarrow> byte list" where
  "HashUtility_sha256 input =
     (case input of Str s \<Rightarrow> sha2_256 (utf8_bytes s) | Buf b \<Rightarrow> sha2_256 b)"

definition verifySecretKeccak256 :: "hash_input \<Rightarrow> byte list \<Rightarrow> bool" where
  "verifySecretKeccak256 secret expectedHash = (HashUtility_keccak256 secret = expectedHash)"

definition verifySecretSha256 :: "hash_input \<Rightarrow> byte list \<Rightarrow> bool" where
  "verifySecretSha256 secret expectedHash = (HashUtility_sha256 secret = expectedHash)"

section \<open>Sui: module \<open>sui_resolver::safe_escrow\<close>\<close>

type_synonym address = nat
type_synonym object_id = nat

text \<open>
  The abort codes of the module, and the abort of the Move VM on \<open>u64\<close> overflow.
  A \<open>u64\<close> is a natural number; where the module adds two of them the overflow check is
  written out.
\<close>

datatype move_abort =
    EInvalidSecret | ETooEarly | ENotOwner | EAlreadyWithdrawn | EAlreadyRefunded
  | EInvalidAmount | ArithmeticOverflow

record SafeEscrow =
  safe_uid :: object_id
  owner :: address
  beneficiary :: address
  locked_coin :: nat
  secret_hash :: "byte list"
  start_time :: nat
  lock_duration :: nat
  is_withdrawn :: bool
  is_refunded :: bool
  use_sha256 :: bool

record SafeOwnerCap =
  cap_uid :: object_id
  safe_id :: object_id

datatype safe_event =
    SafeCreated object_id address address nat "byte list" nat nat bool
  | SafeWithdrawn object_id address address nat string
  | SafeRefunded object_id address nat

text \<open>
  \<open>create_safe_internal\<close>: the transaction context supplies the sender and the two fresh
  object ids, the clock the start time.
\<close>

definition create_safe_internal ::
  "nat \<Rightarrow> address \<Rightarrow> byte list \<Rightarrow> nat \<Rightarrow> bool \<Rightarrow> nat \<Rightarrow> address \<Rightarrow> object_id \<Rightarrow> object_id
     \<Rightarrow> move_abort + (SafeEscrow \<times> SafeOwnerCap \<times> safe_event)" where
  "create_safe_internal coin benef hash duration sha clock sender new_safe new_cap =
     (if \<not> coin > 0 then Inl EInvalidAmount
      else Inr
        (\<lparr>safe_uid = new_safe, owner = sender, beneficiary = benef, locked_coin = coin,
          secret_hash = hash, start_time = clock, lock_duration = duration,
          is_withdrawn = False, is_refunded = False, use_sha256 = sha\<rparr>,
         \<lparr>cap_uid = new_cap, safe_id = new_safe\<rparr>,
         SafeCreated new_safe sender benef coin hash clock duration sha))"

text \<open>
  \<open>withdraw(safe, secret, ctx)\<close>: the function takes no clock. It returns the updated safe,
  the value of the coin split off and the event.
\<close>

definition safe_escrow_withdraw ::
  "SafeEscrow \<Rightarrow> string \<Rightarrow> address \<Rightarrow> move_abort + (SafeEscrow \<times> nat \<times> safe_event)" where
  "safe_escrow_withdraw safe secret sender =
     (if is_withdrawn safe then Inl EAlreadyWithdrawn
      else if is_refunded safe then Inl EAlreadyRefunded
      else if \<not> (if use_sha256 safe then verify_secret_sha256 secret (secret_hash safe)
                 else verify_secret secret (secret_hash safe))
        then Inl EInvalidSecret
      else
        (let amount = locked_coin safe
         in Inr (safe\<lparr>is_withdrawn := True, locked_coin := locked_coin safe - amount\<rparr>,
                 amount,
                 SafeWithdrawn (safe_uid safe) sender (beneficiary safe) amount secret)))"

text \<open>\<open>refund(safe, owner_cap, clock, ctx)\<close>; \<open>now\<close> is \<open>clock::timestamp_ms(clock)\<close>.\<close>

definition safe_escrow_refund ::
  "SafeEscrow \<Rightarrow> SafeOwnerCap \<Rightarrow> nat \<Rightarrow> move_abort + (SafeEscrow \<times> nat \<times> safe_event)" where
  "safe_escrow_refund safe owner_cap now =
     (if is_withdrawn safe then Inl EAlreadyWithdrawn
      else if is_refunded safe then Inl EAlreadyRefunded
      else if \<not> safe_id owner_cap = safe_uid safe then Inl ENotOwner
      else if \<not> start_time safe + lock_duration safe < 2 ^ 64 then Inl ArithmeticOverflow
      else if \<not> now \<ge> start_time safe + lock_duration safe then Inl ETooEarly
      else
        (let amount = locked_coin safe
         in Inr (safe\<lparr>is_refunded := True, locked_coin := locked_coin safe - amount\<rparr>,
                 amount,
                 SafeRefunded (safe_uid safe) (owner safe) amount)))"

text \<open>\<open>is_lock_expired(safe, clock)\<close>, the view the module offers on the deadline.\<close>

definition is_lock_expired :: "SafeEscrow \<Rightarrow> nat \<Rightarrow> move_abort + bool" where
  "is_lock_expired safe now =
     (if \<not> start_time safe + lock_duration safe < 2 ^ 64 then Inl ArithmeticOverflow
      else Inr (now \<ge> start_time safe + lock_duration safe))"

text \<open>
  Transactions on one shared safe. An aborted transaction leaves the object as it was.
\<close>

datatype safe_op = SafeWithdraw string address | SafeRefund SafeOwnerCap nat

fun safe_escrow_apply :: "SafeEscrow \<Rightarrow> safe_op \<Rightarrow> SafeEscrow" where
  "safe_escrow_apply safe (SafeWithdraw secret sender) =
     (case safe_escrow_withdraw safe secret sender of
        Inl e \<Rightarrow> safe | Inr (safe', coin, ev) \<Rightarrow> safe')"
| "safe_escrow_apply safe (SafeRefund cap now) =
     (case safe_escrow_refund safe cap now of
        Inl e \<Rightarrow> safe | Inr (safe', coin, ev) \<Rightarrow> safe')"

definition safe_escrow_run :: "SafeEscrow \<Rightarrow> safe_op list \<Rightarrow> SafeEscrow" where
  "safe_escrow_run safe ops = foldl safe_escrow_apply safe ops"

section \<open>Ethereum: contract \<open>ETHWSUISwap\<close>\<close>

type_synonym bytes32 = "byte list"

datatype SwapType = ETH_TO_WSUI | WSUI_TO_ETH

record Swap =
  secretHash :: bytes32
  ethAmount :: nat
  wsuiAmount :: nat
  initiator :: address
  participant :: address
  timelock :: nat
  withdrawn :: bool
  refunded :: bool
  swapType :: SwapType

text \<open>The storage read by \<open>withdraw\<close> and \<open>refund\<close>; the mapping is total, as in Solidity.\<close>

record ETHWSUISwap =
  swaps :: "bytes32 \<Rightarrow> Swap"
  swapFee :: nat
  feeRecipient :: address

text \<open>
  The transaction: sender, block time, and whether a value call to an address or a
  \<open>safeTransfer\<close> of the token to it goes through (the callee may reject, the balance
  may not suffice).
\<close>

record evm_tx =
  msg_sender :: address
  block_timestamp :: nat
  call_succeeds :: "address \<Rightarrow> nat \<Rightarrow> bool"
  token_transfer_succeeds :: "address \<Rightarrow> nat \<Rightarrow> bool"

datatype evm_revert =
    SwapDoesNotExist | AlreadyWithdrawn | AlreadyRefunded | TimelockExpired | InvalidSecret
  | OnlyParticipantCanWithdraw | EthTransferFailed | FeeTransferFailed | TokenTransferFailed
  | TimelockNotExpired | OnlyInitiatorCanRefund | EthRefundFailed | ArithmeticPanic

datatype payment = PayETH address nat | PayWSUI address nat

text \<open>
  Checked \<open>uint256\<close> arithmetic of Solidity 0.8, on natural numbers: the product panics
  above \<open>2 ^ 256 - 1\<close>, the difference panics below zero.
\<close>

definition checked_mul :: "nat \<Rightarrow> nat \<Rightarrow> evm_revert + nat" where
  "checked_mul a b = (if a * b < 2 ^ 256 then Inr (a * b) else Inl ArithmeticPanic)"

definition checked_sub :: "nat \<Rightarrow> nat \<Rightarrow> evm_revert + nat" where
  "checked_sub a b = (if b \<le> a then Inr (a - b) else Inl ArithmeticPanic)"

text \<open>The modifiers \<open>validSwap\<close>, \<open>withdrawable\<close> and \<open>refundable\<close>: the first failing \<open>require\<close>.\<close>

definition validSwap :: "ETHWSUISwap \<Rightarrow> bytes32 \<Rightarrow> evm_revert option" where
  "validSwap c swapId = (if timelock (swaps c swapId) > 0 then None else Some SwapDoesNotExist)"

definition withdrawable :: "ETHWSUISwap \<Rightarrow> evm_tx \<Rightarrow> bytes32 \<Rightarrow> bytes32 \<Rightarrow> evm_revert option" where
  "withdrawable c tx swapId secret =
     (if \<not> \<not> withdrawn (swaps c swapId) then Some AlreadyWithdrawn
      else if \<not> \<not> refunded (swaps c swapId) then Some AlreadyRefunded
      else if \<not> block_timestamp tx \<le> timelock (swaps c swapId) then Some TimelockExpired
      else if \<not> sha2_256 secret = secretHash (swaps c swapId) then Some InvalidSecret
      else None)"

definition refundable :: "ETHWSUISwap \<Rightarrow> evm_tx \<Rightarrow> bytes32 \<Rightarrow> evm_revert option" where
  "refundable c tx swapId =
     (if \<not> \<not> withdrawn (swaps c swapId) then Some AlreadyWithdrawn
      else if \<not> \<not> refunded (swaps c swapId) then Some AlreadyRefunded
      else if \<not> block_timestamp tx > timelock (swaps c swapId) then Some TimelockNotExpired
      else if \<not> msg_sender tx = initiator (swaps c swapId) then Some OnlyInitiatorCanRefund
      else None)"

text \<open>
  The body of \<open>withdraw\<close> after the flag is set: fee and net amount, the transfer of the
  net amount to the participant and, when positive, of the fee to the fee recipient.
\<close>

definition withdraw_body ::
  "ETHWSUISwap \<Rightarrow> evm_tx \<Rightarrow> Swap \<Rightarrow> evm_revert + payment list" where
  "withdraw_body c tx swap =
     (if swapType swap = ETH_TO_WSUI then
        (case checked_mul (ethAmount swap) (swapFee c) of
           Inl e \<Rightarrow> Inl e
         | Inr product \<Rightarrow>
            (let fee = product div 10000
             in case checked_sub (ethAmount swap) fee of
                  Inl e \<Rightarrow> Inl e
                | Inr netAmount \<Rightarrow>
                   if \<not> call_succeeds tx (participant swap) netAmount then Inl EthTransferFailed
                   else if fee > 0 then
                     (if \<not> call_succeeds tx (feeRecipient c) fee then Inl FeeTransferFailed
                      else Inr [PayETH (participant swap) netAmount, PayETH (feeRecipient c) fee])
                   else Inr [PayETH (participant swap) netAmount]))
      else
        (case checked_mul (wsuiAmount swap) (swapFee c) of
           Inl e \<Rightarrow> Inl e
         | Inr product \<Rightarrow>
            (let fee = product div 10000
             in case checked_sub (wsuiAmount swap) fee of
                  Inl e \<Rightarrow> Inl e
                | Inr netAmount \<Rightarrow>
                   if \<not> token_transfer_succeeds tx (participant swap) netAmount
                   then Inl TokenTransferFailed
                   else if fee > 0 then
                     (if \<not> token_transfer_succeeds tx (feeRecipient c) fee
                      then Inl TokenTransferFailed
                      else Inr [PayWSUI (participant swap) netAmount, PayWSUI (feeRecipient c) fee])
                   else Inr [PayWSUI (participant swap) netAmount])))"

definition ETHWSUISwap_withdraw ::
  "ETHWSUISwap \<Rightarrow> evm_tx \<Rightarrow> bytes32 \<Rightarrow> bytes32 \<Rightarrow> evm_revert + (ETHWSUISwap \<times> payment list)" where
  "ETHWSUISwap_withdraw c tx swapId secret =
     (case validSwap c swapId of Some e \<Rightarrow> Inl e | None \<Rightarrow>
      case withdrawable c tx swapId secret of Some e \<Rightarrow> Inl e | None \<Rightarrow>
      if \<not> msg_sender tx = participant (swaps c swapId) then Inl OnlyParticipantCanWithdraw
      else
        (let swap = (swaps c swapId)\<lparr>withdrawn := True\<rparr>
         in case withdraw_body c tx swap of
              Inl e \<Rightarrow> Inl e
            | Inr paid \<Rightarrow> Inr (c\<lparr>swaps := (swaps c)(swapId := swap)\<rparr>, paid)))"

definition ETHWSUISwap_refund ::
  "ETHWSUISwap \<Rightarrow> evm_tx \<Rightarrow> bytes32 \<Rightarrow> evm_revert + (ETHWSUISwap \<times> payment list)" where
  "ETHWSUISwap_refund c tx swapId =
     (case validSwap c swapId of Some e \<Rightarrow> Inl e | None \<Rightarrow>
      case refundable c tx swapId of Some e \<Rightarrow> Inl e | None \<Rightarrow>
        (let swap = (swaps c swapId)\<lparr>refunded := True\<rparr>;
             c' = c\<lparr>swaps := (swaps c)(swapId := swap)\<rparr>
         in if swapType swap = ETH_TO_WSUI then
              (if \<not> call_succeeds tx (initiator swap) (ethAmount swap) then Inl EthRefundFailed
               else Inr (c', [PayETH (initiator swap) (ethAmount swap)]))
            else
              (if \<not> token_transfer_succeeds tx (initiator swap) (wsuiAmount swap)
               then Inl TokenTransferFailed
               else Inr (c', [PayWSUI (initiator swap) (wsuiAmount swap)]))))"

text \<open>Transactions on the contract; a reverted transaction leaves the storage as it was.\<close>

datatype swap_op = SwapWithdraw evm_tx bytes32 bytes32 | SwapRefund evm_tx bytes32

fun ETHWSUISwap_apply :: "ETHWSUISwap \<Rightarrow> swap_op \<Rightarrow> ETHWSUISwap" where
  "ETHWSUISwap_apply c (SwapWithdraw tx swapId secret) =
     (case ETHWSUISwap_withdraw c tx swapId secret of Inl e \<Rightarrow> c | Inr (c', paid) \<Rightarrow> c')"
| "ETHWSUISwap_apply c (SwapRefund tx swapId) =
     (case ETHWSUISwap_refund c tx swapId of Inl e \<Rightarrow> c | Inr (c', paid) \<Rightarrow> c')"

definition ETHWSUISwap_run :: "ETHWSUISwap \<Rightarrow> swap_op list \<Rightarrow> ETHWSUISwap" where
  "ETHWSUISwap_run c ops = foldl ETHWSUISwap_apply c ops"

text \<open>
  A call succeeds when it returns a value and fails when it aborts, reverts or throws.
\<close>

definition succeeds :: "'e + 'a \<Rightarrow> bool" where
  "succeeds r = (case r of Inl e \<Rightarrow> False | Inr v \<Rightarrow> True)"

text \<open>The transfer that \<open>refund\<close> makes, and whether it goes through.\<close>

definition refund_payout_succeeds :: "evm_tx \<Rightarrow> Swap \<Rightarrow> bool" where
  "refund_payout_succeeds tx swap =
     (if swapType swap = ETH_TO_WSUI then call_succeeds tx (initiator swap) (ethAmount swap)
      else token_transfer_succeeds tx (initiator swap) (wsuiAmount swap))"

text \<open>The amount a swap locks and the asset it pays out, by its type.\<close>

definition locked_amount :: "Swap \<Rightarrow> nat" where
  "locked_amount swap = (if swapType swap = ETH_TO_WSUI then ethAmount swap else wsuiAmount swap)"

definition pay_in :: "Swap \<Rightarrow> address \<Rightarrow> nat \<Rightarrow> payment" where
  "pay_in swap = (if swapType swap = ETH_TO_WSUI then PayETH else PayWSUI)"

text \<open>
  The net amount as the specification writes it:
  \<open>net = floor(amount * (10000 - fee_bps) / 10000)\<close>.
\<close>

definition spec_net :: "nat \<Rightarrow> nat \<Rightarrow> nat" where
  "spec_net amount fee_bps = amount * (10000 - fee_bps) div 10000"

section \<open>JavaScript: class \<open>TimeoutManager\<close>\<close>

record timeout_config =
  sourceTimeout :: int
  destTimeout :: int
  safetyMargin :: int
  minTimeout :: int

text \<open>
  Reading a property of an object literal: an own property, else a property inherited from
  \<open>Object.prototype\<close> (a function, or the prototype itself for \<open>__proto__\<close>), else
  \<open>undefined\<close>.
\<close>

datatype 'a js_property = Undefined | Own 'a | Inherited string

definition object_prototype_properties :: "string list" where
  "object_prototype_properties =
     [''constructor'', ''__defineGetter__'', ''__defineSetter__'', ''hasOwnProperty'',
      ''__lookupGetter__'', ''__lookupSetter__'', ''isPrototypeOf'', ''propertyIsEnumerable'',
      ''toString'', ''valueOf'', ''__proto__'', ''toLocaleString'']"

definition js_get :: "(string \<times> 'a) list \<Rightarrow> string \<Rightarrow> 'a js_property" where
  "js_get obj key =
     (case map_of obj key of
        Some v \<Rightarrow> Own v
      | None \<Rightarrow> if key \<in> set object_prototype_properties then Inherited key else Undefined)"

text \<open>\<open>p || q\<close>: objects and functions are truthy, \<open>undefined\<close> is falsy.\<close>

fun js_or :: "'a js_property \<Rightarrow> 'a js_property \<Rightarrow> 'a js_property" where
  "js_or Undefined q = q"
| "js_or p q = p"

definition timeout_configs :: "(string \<times> timeout_config) list" where
  "timeout_configs =
     [(''mainnet'', \<lparr>sourceTimeout = 3 * 60 * 60 * 1000, destTimeout = 30 * 60 * 1000,
                     safetyMargin = 30 * 60 * 1000, minTimeout = 10 * 60 * 1000\<rparr>),
      (''testnet'', \<lparr>sourceTimeout = 30 * 60 * 1000, destTimeout = 5 * 60 * 1000,
                     safetyMargin = 5 * 60 * 1000, minTimeout = 2 * 60 * 1000\<rparr>),
      (''devnet'', \<lparr>sourceTimeout = 10 * 60 * 1000, destTimeout = 2 * 60 * 1000,
                    safetyMargin = 2 * 60 * 1000, minTimeout = 1 * 60 * 1000\<rparr>)]"

definition TimeoutManager_getTimeoutConfig :: "string \<Rightarrow> timeout_config js_property" where
  "TimeoutManager_getTimeoutConfig network =
     js_or (js_get timeout_configs network) (js_get timeout_configs ''testnet'')"

record TimeoutManager =
  network :: string
  config :: "timeout_config js_property"

text \<open>The constructor; \<open>None\<close> is a missing or \<open>undefined\<close> argument, which takes the default.\<close>

definition TimeoutManager_new :: "string option \<Rightarrow> TimeoutManager" where
  "TimeoutManager_new arg =
     (let network = (case arg of None \<Rightarrow> ''testnet'' | Some n \<Rightarrow> n)
      in \<lparr>network = network, config = TimeoutManager_getTimeoutConfig network\<rparr>)"

datatype timeout_error =
    TypeError | SourceBelowMinimum | DestinationBelowMinimum | SafetyMarginNotExceeded

text \<open>
  \<open>this.config.f\<close>: a number on a profile, \<open>undefined\<close> (\<open>None\<close>) on an inherited function
  or object, a \<open>TypeError\<close> on \<open>undefined\<close>.
\<close>

definition config_field ::
  "(timeout_config \<Rightarrow> int) \<Rightarrow> TimeoutManager \<Rightarrow> timeout_error + int option" where
  "config_field f tm =
     (case config tm of
        Undefined \<Rightarrow> Inl TypeError
      | Own c \<Rightarrow> Inr (Some (f c))
      | Inherited k \<Rightarrow> Inr None)"

definition getDefaultSourceTimeout :: "TimeoutManager \<Rightarrow> timeout_error + int option" where
  "getDefaultSourceTimeout tm = config_field sourceTimeout tm"

definition getDefaultDestTimeout :: "TimeoutManager \<Rightarrow> timeout_error + int option" where
  "getDefaultDestTimeout tm = config_field destTimeout tm"

definition getSafetyMargin :: "TimeoutManager \<Rightarrow> timeout_error + int option" where
  "getSafetyMargin tm = config_field safetyMargin tm"

text \<open>
  The numbers of JavaScript are IEEE-754 doubles. A whole number is a double when it has at
  most 53 significant bits, and \<open>a + b\<close> on two whole doubles is the exact sum rounded to 53
  significant bits, a tie going to the neighbour whose last bit is 0. Comparisons and
  \<open>Math.max\<close> are exact. The timeouts below are whole doubles; the sums formed stay under
  \<open>2 ^ 1024\<close>, so none becomes \<open>Infinity\<close>.
\<close>

fun bit_length :: "nat \<Rightarrow> nat" where
  "bit_length n = (if n = 0 then 0 else 1 + bit_length (n div 2))"

declare bit_length.simps [simp del]

definition round_to_double :: "int \<Rightarrow> int" where
  "round_to_double x =
     (let n = nat \<bar>x\<bar>;
          ulp = 2 ^ (bit_length n - 53);
          q = n div ulp;
          r = n mod ulp;
          q' = (if ulp < 2 * r \<or> (ulp = 2 * r \<and> odd q) then q + 1 else q)
      in sgn x * int (q' * ulp))"

definition js_add :: "int \<Rightarrow> int \<Rightarrow> int" where
  "js_add a b = round_to_double (a + b)"

text \<open>
  \<open>calculateOptimalTimeouts(estimatedExecutionTime = 0)\<close>: the source timeout, the
  destination timeout and the safety margin of the object returned. On an inherited function
  the fields are \<open>undefined\<close> and the object holds \<open>NaN\<close>, \<open>NaN\<close> and \<open>undefined\<close>
  (\<open>None\<close>).
\<close>

definition calculateOptimalTimeouts ::
  "TimeoutManager \<Rightarrow> int option \<Rightarrow> timeout_error + (int \<times> int \<times> int) option" where
  "calculateOptimalTimeouts tm arg =
     (let estimatedExecutionTime = (case arg of None \<Rightarrow> 0 | Some t \<Rightarrow> t)
      in case config tm of
           Undefined \<Rightarrow> Inl TypeError
         | Inherited k \<Rightarrow> Inr None
         | Own c \<Rightarrow>
             (let baseDestTimeout = max (destTimeout c) (js_add estimatedExecutionTime (safetyMargin c));
                  baseSourceTimeout = js_add baseDestTimeout (safetyMargin c)
              in Inr (Some (max baseSourceTimeout (minTimeout c),
                            max baseDestTimeout (minTimeout c),
                            safetyMargin c))))"

text \<open>
  \<open>validateTimeouts(sourceTimeout, destTimeout)\<close> on timeouts that are whole doubles. On an
  inherited function the fields are \<open>undefined\<close>, every comparison with \<open>undefined\<close> or
  \<open>NaN\<close> is false and the method returns true.
\<close>

definition validateTimeouts :: "TimeoutManager \<Rightarrow> int \<Rightarrow> int \<Rightarrow> timeout_error + bool" where
  "validateTimeouts tm sourceTimeout' destTimeout' =
     (case config tm of
        Undefined \<Rightarrow> Inl TypeError
      | Inherited k \<Rightarrow> Inr True
      | Own c \<Rightarrow>
          if sourceTimeout' < minTimeout c then Inl SourceBelowMinimum
          else if destTimeout' < minTimeout c then Inl DestinationBelowMinimum
          else
            (let requiredSourceTimeout = js_add destTimeout' (safetyMargin c)
             in if sourceTimeout' \<le> requiredSourceTimeout then Inl SafetyMarginNotExceeded
                else Inr True))"

section \<open>JavaScript: \<open>ConfigManager.getTimeoutConfig\<close>\<close>

record timeout_pair =
  source :: int
  dest :: int

text \<open>
  The loaded configuration: \<open>config.network\<close> (never empty: \<open>process.env.NETWORK || 'testnet'\<close>)
  and the two entries of \<open>config.timeouts\<close>, whose numbers come from the environment.
\<close>

record ConfigManager =
  config_network :: string
  mainnet_timeouts :: timeout_pair
  testnet_timeouts :: timeout_pair

definition config_timeouts :: "ConfigManager \<Rightarrow> (string \<times> timeout_pair) list" where
  "config_timeouts cm = [(''mainnet'', mainnet_timeouts cm), (''testnet'', testnet_timeouts cm)]"

text \<open>\<open>getTimeoutConfig(network = null)\<close>: \<open>None\<close> and the empty string are falsy.\<close>

definition getTimeoutConfig :: "ConfigManager \<Rightarrow> string option \<Rightarrow> timeout_pair js_property" where
  "getTimeoutConfig cm arg =
     (let targetNetwork =
            (case arg of None \<Rightarrow> config_network cm
             | Some n \<Rightarrow> if n = [] then config_network cm else n)
      in js_or (js_get (config_timeouts cm) targetNetwork)
               (js_get (config_timeouts cm) ''testnet''))"

text \<open>The testnet profile, with the products worked out.\<close>

definition testnet_config :: timeout_config where
  "testnet_config = \<lparr>sourceTimeout = 1800000, destTimeout = 300000,
                      safetyMargin = 300000, minTimeout = 120000\<rparr>"

text \<open>
  The pairs the claim takes to be valid: both timeouts at least the minimum and the source
  timeout above the destination timeout by at least the safety margin.
\<close>

definition claimed_valid :: "timeout_config \<Rightarrow> int \<Rightarrow> int \<Rightarrow> bool" where
  "claimed_valid c s d = (minTimeout c \<le> s \<and> minTimeout c \<le> d \<and> s - d \<ge> safetyMargin c)"

section \<open>JavaScript: the retry loops of \<open>RelayerService\<close>\<close>

datatype chain = Ethereum | Sui

text \<open>
  What a run of a retry loop does, in order: a call of \<open>escrowManager.withdrawFromSafe\<close>
  for a chain, with the attempt's number, or a call of \<open>_delay\<close> with so many milliseconds.
\<close>

datatype retry_event = Submit chain int | Delay int

text \<open>
  The constructor: \<open>parseInt(process.env.RELAYER_RETRY_ATTEMPTS) || 3\<close>, where \<open>None\<close> is
  \<open>NaN\<close>, and a delay of 5000 ms.
\<close>

record RelayerService =
  retryAttempts :: int
  retryDelay :: int

definition RelayerService_new :: "int option \<Rightarrow> RelayerService" where
  "RelayerService_new parsed =
     \<lparr>retryAttempts = (case parsed of None \<Rightarrow> 3 | Some n \<Rightarrow> if n = 0 then 3 else n),
      retryDelay = 5000\<rparr>"

text \<open>
  The loop \<open>for (let attempt = 1; attempt <= this.retryAttempts; attempt++)\<close>, from the
  value of \<open>attempt\<close> on; \<open>ok attempt\<close> tells whether the withdrawal of that attempt
  resolves (the loop returns) or rejects.
\<close>

function retry_from :: "RelayerService \<Rightarrow> chain \<Rightarrow> (int \<Rightarrow> bool) \<Rightarrow> int \<Rightarrow> retry_event list" where
  "retry_from rs ch ok attempt =
     (if attempt \<le> retryAttempts rs then
        (if ok attempt then [Submit ch attempt]
         else if attempt < retryAttempts rs
           then Submit ch attempt # Delay (retryDelay rs * attempt) # retry_from rs ch ok (attempt + 1)
           else Submit ch attempt # retry_from rs ch ok (attempt + 1))
      else [])"
  by pat_completeness auto
termination
  by (relation "measure (\<lambda>(rs, ch, ok, attempt). nat (retryAttempts rs + 1 - attempt))") auto

declare retry_from.simps [simp del]

definition withdrawFromEthereumSafeWithRetry :: "RelayerService \<Rightarrow> (int \<Rightarrow> bool) \<Rightarrow> retry_event list" where
  "withdrawFromEthereumSafeWithRetry rs ok = retry_from rs Ethereum ok 1"

definition withdrawFromSuiSafeWithRetry :: "RelayerService \<Rightarrow> (int \<Rightarrow> bool) \<Rightarrow> retry_event list" where
  "withdrawFromSuiSafeWithRetry rs ok = retry_from rs Sui ok 1"

fun attempts :: "retry_event list \<Rightarrow> int list" where
  "attempts [] = []"
| "attempts (Submit ch k # es) = k # attempts es"
| "attempts (Delay d # es) = attempts es"

fun delays :: "retry_event list \<Rightarrow> int list" where
  "delays [] = []"
| "delays (Submit ch k # es) = delays es"
| "delays (Delay d # es) = d # delays es"

text \<open>A withdrawal that rejects at every attempt.\<close>

definition never_resolves :: "int \<Rightarrow> bool" where
  "never_resolves attempt = False"

text \<open>
  The backoff of the specification: a delay within 25 percent of its nominal value, the
  nominal value before retry \<open>i\<close> being \<open>retryDelay * 2 ^ (i - 1)\<close>.
\<close>

definition within_jitter :: "int \<Rightarrow> int \<Rightarrow> bool" where
  "within_jitter nominal d = (3 * nominal \<le> 4 * d \<and> 4 * d \<le> 5 * nominal)"

section \<open>TypeScript: the monitoring step of \<open>ResolverService\<close>\<close>

datatype SwapStatus =
    PENDING | USER_LOCKED | RESOLVER_LOCKED | BOTH_LOCKED | USER_CLAIMED | RESOLVER_CLAIMED
  | COMPLETED | FAILED | REFUNDED | EXPIRED


















text \<open>
  The rule of the specification on a sequence of phases: no \<open>COMPLETED\<close> comes after a
  \<open>BOTH_LOCKED\<close> without a \<open>USER_CLAIMED\<close> (Revealed) between the two. \<open>locked\<close> tells that a
  \<open>BOTH_LOCKED\<close> has been passed and no \<open>USER_CLAIMED\<close> since.
\<close>

fun traverses_revealed :: "bool \<Rightarrow> SwapStatus list \<Rightarrow> bool" where
  "traverses_revealed locked [] = True"
| "traverses_revealed locked (s # ss) =
     (if s = COMPLETED \<and> locked then False
      else traverses_revealed
             (if s = BOTH_LOCKED then True else if s = USER_CLAIMED then False else locked) ss)"

section \<open>Concrete escrows, swaps and services\<close>

text \<open>
  A Sui safe of 1000 units locked behind the Keccak-256 digest of "abc" from time 1000 for
  500 ms (deadline 1500), and its owner capability.
\<close>

definition example_safe :: SafeEscrow where
  "example_safe =
     \<lparr>safe_uid = 7, owner = 3, beneficiary = 2, locked_coin = 1000,
      secret_hash = calculate_hash ''abc'', start_time = 1000, lock_duration = 500,
      is_withdrawn = False, is_refunded = False, use_sha256 = False\<rparr>"

definition example_cap :: SafeOwnerCap where
  "example_cap = \<lparr>cap_uid = 8, safe_id = 7\<rparr>"

text \<open>
  An \<open>ETHWSUISwap\<close> contract with the default fee of 30 basis points and one swap, under the
  id \<open>[1]\<close>: 3 wei locked by address 3 for address 2 until time 5000.
\<close>

definition empty_swap :: Swap where
  "empty_swap =
     \<lparr>secretHash = replicate 32 0, ethAmount = 0, wsuiAmount = 0, initiator = 0,
      participant = 0, timelock = 0, withdrawn = False, refunded = False,
      swapType = ETH_TO_WSUI\<rparr>"

definition example_secret :: bytes32 where
  "example_secret = replicate 32 7"

definition example_swap :: Swap where
  "example_swap =
     \<lparr>secretHash = sha2_256 example_secret, ethAmount = 3, wsuiAmount = 5,
      initiator = 3, participant = 2, timelock = 5000, withdrawn = False, refunded = False,
      swapType = ETH_TO_WSUI\<rparr>"

definition example_contract :: ETHWSUISwap where
  "example_contract =
     \<lparr>swaps = (\<lambda>i. empty_swap)([1] := example_swap), swapFee = 30, feeRecipient = 9\<rparr>"

text \<open>A transaction of a sender at a time, all of whose transfers go through.\<close>

definition example_tx :: "address \<Rightarrow> nat \<Rightarrow> evm_tx" where
  "example_tx sender now =
     \<lparr>msg_sender = sender, block_timestamp = now, call_succeeds = (\<lambda>a v. True),
      token_transfer_succeeds = (\<lambda>a v. True)\<rparr>"

text \<open>A configuration loaded with \<open>NETWORK=mainnet\<close> and the default timeouts.\<close>

definition mainnet_manager :: ConfigManager where
  "mainnet_manager =
     \<lparr>config_network = ''mainnet'', mainnet_timeouts = \<lparr>source = 10800000, dest = 1800000\<rparr>,
      testnet_timeouts = \<lparr>source = 1800000, dest = 300000\<rparr>\<rparr>"




section \<open>Computing digests\<close>

lemma length_Cons_plus: "length (x # xs) = 1 + length xs"
  by simp

lemma replicate_numeral: "replicate (numeral k) x = x # replicate (pred_numeral k) x"
  by (simp add: numeral_eq_Suc)

lemma blocks_short: "length xs < k \<Longrightarrow> blocks k xs = []"
  by (simp add: blocks.simps)

lemma blocks_step:
  "0 < k \<Longrightarrow> k \<le> length xs \<Longrightarrow> blocks k xs = take k xs # blocks k (drop k xs)"
  by (subst blocks.simps) simp

lemmas list_eval = length_Cons_plus replicate_numeral blocks_short blocks_step

lemmas sha256_eval = sha256_nat_def sha_pad_def be_bytes8_def be_bytes4_def
  sha256_compress_def sha256_round_constants_def sha256_initial_def add32_def rotr32_def
  choose32_def majority32_def bsig0_def bsig1_def ssig0_def ssig1_def

lemmas keccak_eval = sponge256_def sponge_pad_def absorb_def keccak_f_def keccak_round_def
  keccak_round_constants_def chi_def rho_pi_def rho_pi_table_def theta_def rotl64_def
  andn_def le_bytes8_def be_bytes8_def be_bytes4_def

text \<open>The test vector "abc" of FIPS 180-4: ba7816bf 8f01cfea ... f20015ad.\<close>

lemma sha256_nat_abc:
  "sha256_nat [97, 98, 99] =
     [186, 120, 22, 191, 143, 1, 207, 234, 65, 65, 64, 222, 93, 174, 34, 35,
      176, 3, 97, 163, 150, 23, 122, 156, 180, 16, 255, 97, 242, 0, 21, 173]"
  by (simp add: sha256_eval list_eval del: length_Cons)

text \<open>Keccak-256 of "abc": 4e03657a ea45a94f ... a12d6c45.\<close>

lemma keccak256_nat_abc:
  "sponge256 1 [97, 98, 99] =
     [78, 3, 101, 122, 234, 69, 169, 79, 199, 212, 123, 168, 38, 200, 214, 103,
      192, 209, 230, 227, 58, 100, 160, 54, 236, 68, 245, 143, 161, 45, 108, 69]"
  by (simp add: keccak_eval list_eval del: length_Cons)

lemma utf8_bytes_abc: "map unat (utf8_bytes ''abc'') = [97, 98, 99]"
  by (simp add: utf8_bytes_def)

lemma sha2_256_abc:
  "sha2_256 (utf8_bytes ''abc'') =
     [186, 120, 22, 191, 143, 1, 207, 234, 65, 65, 64, 222, 93, 174, 34, 35,
      176, 3, 97, 163, 150, 23, 122, 156, 180, 16, 255, 97, 242, 0, 21, 173]"
  unfolding sha2_256_def utf8_bytes_abc sha256_nat_abc by simp

lemma keccak_256_abc:
  "keccak_256 (utf8_bytes ''abc'') =
     [78, 3, 101, 122, 234, 69, 169, 79, 199, 212, 123, 168, 38, 200, 214, 103,
      192, 209, 230, 227, 58, 100, 160, 54, 236, 68, 245, 143, 161, 45, 108, 69]"
  unfolding keccak_256_def utf8_bytes_abc keccak256_nat_abc by simp

section \<open>Claims about the hash utilities\<close>

text \<open>
  C1. The claim: for every secret, the SHA-256 digest computed by the hash utilities of
  the two ledgers is the same value, the SHA-256 of the secret's bytes. On the secret
  "abc" the Sui utility \<open>calculate_sha256_hash\<close> returns the Keccak-256 digest
  4e03657a..., the JavaScript utility returns the SHA-256 digest ba7816bf..., and the two
  differ; the Sui verifier rejects the secret against the digest the JavaScript side
  computes for it, so a Sui safe created with that digest, as \<open>createCrossChainSafe\<close>
  does, aborts the withdrawal that presents the secret.
\<close>

theorem C1_sui_sha256_is_keccak256:
  "calculate_sha256_hash ''abc'' =
     [78, 3, 101, 122, 234, 69, 169, 79, 199, 212, 123, 168, 38, 200, 214, 103,
      192, 209, 230, 227, 58, 100, 160, 54, 236, 68, 245, 143, 161, 45, 108, 69]
   \<and> HashUtility_sha256 (Str ''abc'') =
     [186, 120, 22, 191, 143, 1, 207, 234, 65, 65, 64, 222, 93, 174, 34, 35,
      176, 3, 97, 163, 150, 23, 122, 156, 180, 16, 255, 97, 242, 0, 21, 173]
   \<and> calculate_sha256_hash ''abc'' \<noteq> HashUtility_sha256 (Str ''abc'')
   \<and> \<not> verify_secret_sha256 ''abc'' (HashUtility_sha256 (Str ''abc''))
   \<and> safe_escrow_withdraw
        (example_safe\<lparr>secret_hash := HashUtility_sha256 (Str ''abc''), use_sha256 := True\<rparr>)
        ''abc'' 2 = Inl EInvalidSecret"
  by (simp add: calculate_sha256_hash_def HashUtility_sha256_def verify_secret_sha256_def
      keccak_256_abc sha2_256_abc safe_escrow_withdraw_def example_safe_def)

text \<open>
  C9. Round trip: for every secret (string or buffer), verifying the secret against the
  digest computed from it with the same algorithm returns true, for the keccak256 pair and
  for the sha256 pair of \<open>HashUtility\<close>.
\<close>

theorem C9_verify_round_trip:
  "verifySecretKeccak256 s (HashUtility_keccak256 s) = True
   \<and> verifySecretSha256 s (HashUtility_sha256 s) = True"
  by (simp add: verifySecretKeccak256_def verifySecretSha256_def)

section \<open>The escrows of the two ledgers\<close>

subsection \<open>When the operations succeed\<close>

lemma safe_escrow_withdraw_ok:
  "safe_escrow_withdraw safe secret sender = Inr r \<longleftrightarrow>
     \<not> is_withdrawn safe \<and> \<not> is_refunded safe
     \<and> (if use_sha256 safe then verify_secret_sha256 secret (secret_hash safe)
         else verify_secret secret (secret_hash safe))
     \<and> r = (safe\<lparr>is_withdrawn := True, locked_coin := 0\<rparr>, locked_coin safe,
            SafeWithdrawn (safe_uid safe) sender (beneficiary safe) (locked_coin safe) secret)"
  by (auto simp: safe_escrow_withdraw_def Let_def)

lemma safe_escrow_refund_ok:
  "safe_escrow_refund safe cap now = Inr r \<longleftrightarrow>
     \<not> is_withdrawn safe \<and> \<not> is_refunded safe \<and> safe_id cap = safe_uid safe
     \<and> start_time safe + lock_duration safe < 2 ^ 64
     \<and> start_time safe + lock_duration safe \<le> now
     \<and> r = (safe\<lparr>is_refunded := True, locked_coin := 0\<rparr>, locked_coin safe,
            SafeRefunded (safe_uid safe) (owner safe) (locked_coin safe))"
  by (auto simp: safe_escrow_refund_def Let_def)

lemma locked_amount_withdrawn [simp]:
  "locked_amount (swap\<lparr>withdrawn := b\<rparr>) = locked_amount swap"
  by (simp add: locked_amount_def)

lemma pay_in_withdrawn [simp]: "pay_in (swap\<lparr>withdrawn := b\<rparr>) = pay_in swap"
  by (simp add: pay_in_def)

lemma withdraw_body_ok:
  assumes "withdraw_body c tx swap = Inr paid"
  shows "locked_amount swap * swapFee c div 10000 \<le> locked_amount swap
    \<and> paid =
        (if locked_amount swap * swapFee c div 10000 > 0
         then [pay_in swap (participant swap)
                 (locked_amount swap - locked_amount swap * swapFee c div 10000),
               pay_in swap (feeRecipient c) (locked_amount swap * swapFee c div 10000)]
         else [pay_in swap (participant swap)
                 (locked_amount swap - locked_amount swap * swapFee c div 10000)])"
  using assms
  by (auto simp: withdraw_body_def checked_mul_def checked_sub_def locked_amount_def pay_in_def
      Let_def split: if_splits sum.splits)

lemma ETHWSUISwap_withdraw_ok:
  assumes "ETHWSUISwap_withdraw c tx swapId secret = Inr (c', paid)"
  shows "timelock (swaps c swapId) > 0" "\<not> withdrawn (swaps c swapId)"
    "\<not> refunded (swaps c swapId)" "block_timestamp tx \<le> timelock (swaps c swapId)"
    "sha2_256 secret = secretHash (swaps c swapId)" "msg_sender tx = participant (swaps c swapId)"
    "c' = c\<lparr>swaps := (swaps c)(swapId := (swaps c swapId)\<lparr>withdrawn := True\<rparr>)\<rparr>"
    "withdraw_body c tx ((swaps c swapId)\<lparr>withdrawn := True\<rparr>) = Inr paid"
  using assms
  by (auto simp: ETHWSUISwap_withdraw_def validSwap_def withdrawable_def Let_def
      split: if_splits option.splits sum.splits)

lemma ETHWSUISwap_refund_succeeds:
  "succeeds (ETHWSUISwap_refund c tx swapId) \<longleftrightarrow>
     timelock (swaps c swapId) > 0 \<and> \<not> withdrawn (swaps c swapId)
     \<and> \<not> refunded (swaps c swapId) \<and> block_timestamp tx > timelock (swaps c swapId)
     \<and> msg_sender tx = initiator (swaps c swapId)
     \<and> refund_payout_succeeds tx (swaps c swapId)"
  by (auto simp: succeeds_def ETHWSUISwap_refund_def validSwap_def refundable_def
      refund_payout_succeeds_def Let_def split: if_splits option.splits sum.splits)

lemma safe_escrow_refund_succeeds:
  "succeeds (safe_escrow_refund safe cap now) \<longleftrightarrow>
     \<not> is_withdrawn safe \<and> \<not> is_refunded safe \<and> safe_id cap = safe_uid safe
     \<and> start_time safe + lock_duration safe < 2 ^ 64
     \<and> start_time safe + lock_duration safe \<le> now"
  by (auto simp: succeeds_def safe_escrow_refund_def Let_def)

lemma ETHWSUISwap_withdraw_expired:
  "block_timestamp tx > timelock (swaps c swapId) \<Longrightarrow>
   \<not> succeeds (ETHWSUISwap_withdraw c tx swapId secret)"
  by (auto simp: succeeds_def ETHWSUISwap_withdraw_def validSwap_def withdrawable_def
      split: option.splits)

lemma example_withdraw:
  "ETHWSUISwap_withdraw example_contract (example_tx 2 4000) [1] example_secret =
     Inr (example_contract\<lparr>swaps := (swaps example_contract)([1] := example_swap\<lparr>withdrawn := True\<rparr>)\<rparr>,
          [PayETH 2 3])"
  by (simp add: ETHWSUISwap_withdraw_def validSwap_def withdrawable_def withdraw_body_def
      checked_mul_def checked_sub_def example_contract_def example_swap_def example_tx_def Let_def)

lemma example_contract_fields:
  "swaps example_contract [1] = example_swap" "swapFee example_contract = 30"
  "feeRecipient example_contract = 9"
  by (simp_all add: example_contract_def)

lemma example_swap_fields:
  "ethAmount example_swap = 3" "swapType example_swap = ETH_TO_WSUI"
  "participant example_swap = 2" "initiator example_swap = 3" "timelock example_swap = 5000"
  "withdrawn example_swap = False" "refunded example_swap = False"
  by (simp_all add: example_swap_def)

lemma example_safe_fields:
  "is_withdrawn example_safe = False" "is_refunded example_safe = False"
  "start_time example_safe = 1000" "lock_duration example_safe = 500"
  "safe_uid example_safe = 7"
  by (simp_all add: example_safe_def)

subsection \<open>The terminal flags\<close>

lemma create_safe_internal_flags:
  "create_safe_internal coin benef hash duration sha clock sender new_safe new_cap
     = Inr (safe, cap, ev) \<Longrightarrow> \<not> is_withdrawn safe \<and> \<not> is_refunded safe"
  by (auto simp: create_safe_internal_def split: if_splits)

lemma safe_escrow_apply_flags:
  "is_withdrawn s \<Longrightarrow> is_withdrawn (safe_escrow_apply s x)"
  "is_refunded s \<Longrightarrow> is_refunded (safe_escrow_apply s x)"
  "\<not> (is_withdrawn s \<and> is_refunded s) \<Longrightarrow>
     \<not> (is_withdrawn (safe_escrow_apply s x) \<and> is_refunded (safe_escrow_apply s x))"
  by (cases x; auto simp: safe_escrow_withdraw_def safe_escrow_refund_def Let_def)+

lemma safe_escrow_run_flags:
  "(is_withdrawn s \<longrightarrow> is_withdrawn (safe_escrow_run s ops))
   \<and> (is_refunded s \<longrightarrow> is_refunded (safe_escrow_run s ops))
   \<and> (\<not> (is_withdrawn s \<and> is_refunded s) \<longrightarrow>
        \<not> (is_withdrawn (safe_escrow_run s ops) \<and> is_refunded (safe_escrow_run s ops)))"
  unfolding safe_escrow_run_def
proof (induction ops arbitrary: s)
  case Nil
  show ?case by simp
next
  case (Cons x xs)
  show ?case
    using Cons.IH [of "safe_escrow_apply s x"] safe_escrow_apply_flags [of s x]
    by auto
qed

lemma ETHWSUISwap_apply_flags:
  "withdrawn (swaps c i) \<Longrightarrow> withdrawn (swaps (ETHWSUISwap_apply c x) i)"
  "refunded (swaps c i) \<Longrightarrow> refunded (swaps (ETHWSUISwap_apply c x) i)"
  "\<not> (withdrawn (swaps c i) \<and> refunded (swaps c i)) \<Longrightarrow>
     \<not> (withdrawn (swaps (ETHWSUISwap_apply c x) i) \<and> refunded (swaps (ETHWSUISwap_apply c x) i))"
  by (cases x; auto simp: ETHWSUISwap_withdraw_def ETHWSUISwap_refund_def validSwap_def
      withdrawable_def refundable_def Let_def split: if_splits option.splits sum.splits)+

lemma ETHWSUISwap_run_flags:
  "(withdrawn (swaps c i) \<longrightarrow> withdrawn (swaps (ETHWSUISwap_run c ops) i))
   \<and> (refunded (swaps c i) \<longrightarrow> refunded (swaps (ETHWSUISwap_run c ops) i))
   \<and> (\<not> (withdrawn (swaps c i) \<and> refunded (swaps c i)) \<longrightarrow>
        \<not> (withdrawn (swaps (ETHWSUISwap_run c ops) i)
           \<and> refunded (swaps (ETHWSUISwap_run c ops) i)))"
  unfolding ETHWSUISwap_run_def
proof (induction ops arbitrary: c)
  case Nil
  show ?case by simp
next
  case (Cons x xs)
  show ?case
    using Cons.IH [of "ETHWSUISwap_apply c x"] ETHWSUISwap_apply_flags [of c i x]
    by auto
qed

section \<open>Claims about the escrows\<close>

text \<open>
  C2. The claim: for every escrow, a withdraw attempted after the deadline (start time plus
  lock duration) is refused. The Sui escrow \<open>example_safe\<close> has its deadline at 1500; at
  clock time 999999 its lock has expired, and \<open>withdraw\<close>, which takes no clock and makes
  no deadline check, accepts the secret and marks the escrow withdrawn.
\<close>

theorem C2_sui_withdraw_after_deadline:
  "is_lock_expired example_safe 999999 = Inr True
   \<and> safe_escrow_withdraw example_safe ''abc'' 2 =
       Inr (example_safe\<lparr>is_withdrawn := True, locked_coin := 0\<rparr>, 1000,
            SafeWithdrawn 7 2 2 1000 ''abc'')"
  by (simp add: is_lock_expired_def safe_escrow_withdraw_def example_safe_def verify_secret_def
      Let_def)

text \<open>
  C3. The claim: refund succeeds if and only if the caller is the owner and the current
  time is strictly greater than the deadline; at exactly the deadline it is refused. The
  Sui safe \<open>example_safe\<close> is open and has its deadline at 1500. Its refund, with its owner
  capability, at clock time 1500 exactly is accepted: it marks the safe refunded and pays the
  1000 units out. The refund of the \<open>ETHWSUISwap\<close> swap by its initiator at block time 5000,
  exactly its timelock, reverts.
\<close>

theorem C3_sui_refund_at_deadline:
  "start_time example_safe + lock_duration example_safe = 1500
   \<and> safe_id example_cap = safe_uid example_safe
   \<and> safe_escrow_refund example_safe example_cap 1500 =
       Inr (example_safe\<lparr>is_refunded := True, locked_coin := 0\<rparr>, 1000, SafeRefunded 7 3 1000)
   \<and> safe_escrow_refund example_safe example_cap 1499 = Inl ETooEarly
   \<and> timelock (swaps example_contract [1]) = 5000
   \<and> msg_sender (example_tx 3 5000) = initiator (swaps example_contract [1])
   \<and> \<not> succeeds (ETHWSUISwap_refund example_contract (example_tx 3 5000) [1])
   \<and> succeeds (ETHWSUISwap_refund example_contract (example_tx 3 5001) [1])"
  by (simp add: safe_escrow_refund_def ETHWSUISwap_refund_succeeds refund_payout_succeeds_def
      example_safe_def example_cap_def example_contract_def example_swap_def example_tx_def
      Let_def)

text \<open>
  C4. The terminal flags of an escrow are mutually exclusive and monotone: from a state in
  which not both flags are set (every created escrow starts with neither), no sequence of
  withdraw and refund transactions reaches a state with both, and a flag that is set stays
  set; on the Sui safe and on every swap of the \<open>ETHWSUISwap\<close> contract.
\<close>

theorem C4_terminal_flags:
  "(\<not> (is_withdrawn s \<and> is_refunded s) \<longrightarrow>
      \<not> (is_withdrawn (safe_escrow_run s ops) \<and> is_refunded (safe_escrow_run s ops)))
   \<and> (is_withdrawn s \<longrightarrow> is_withdrawn (safe_escrow_run s ops))
   \<and> (is_refunded s \<longrightarrow> is_refunded (safe_escrow_run s ops))
   \<and> (\<not> (withdrawn (swaps c i) \<and> refunded (swaps c i)) \<longrightarrow>
        \<not> (withdrawn (swaps (ETHWSUISwap_run c txs) i)
           \<and> refunded (swaps (ETHWSUISwap_run c txs) i)))
   \<and> (withdrawn (swaps c i) \<longrightarrow> withdrawn (swaps (ETHWSUISwap_run c txs) i))
   \<and> (refunded (swaps c i) \<longrightarrow> refunded (swaps (ETHWSUISwap_run c txs) i))"
  using safe_escrow_run_flags [of s ops] ETHWSUISwap_run_flags [of c i txs]
  by blast

theorem C4_terminal_flags_witness:
  "\<not> (is_withdrawn example_safe \<and> is_refunded example_safe)
   \<and> is_withdrawn (safe_escrow_run example_safe
         [SafeWithdraw ''abc'' 2, SafeRefund example_cap 2000])
   \<and> \<not> is_refunded (safe_escrow_run example_safe
         [SafeWithdraw ''abc'' 2, SafeRefund example_cap 2000])
   \<and> \<not> (withdrawn (swaps example_contract [1]) \<and> refunded (swaps example_contract [1]))
   \<and> refunded (swaps (ETHWSUISwap_run example_contract
         [SwapRefund (example_tx 3 6000) [1], SwapWithdraw (example_tx 2 4000) [1] example_secret])
         [1])
   \<and> \<not> withdrawn (swaps (ETHWSUISwap_run example_contract
         [SwapRefund (example_tx 3 6000) [1], SwapWithdraw (example_tx 2 4000) [1] example_secret])
         [1])"
proof -
  have sui: "safe_escrow_run example_safe [SafeWithdraw ''abc'' 2] =
      example_safe\<lparr>is_withdrawn := True, locked_coin := 0\<rparr>"
    by (simp add: safe_escrow_run_def safe_escrow_withdraw_def example_safe_def
        verify_secret_def Let_def)
  have eth: "ETHWSUISwap_run example_contract [SwapRefund (example_tx 3 6000) [1]] =
      example_contract\<lparr>swaps := (swaps example_contract)([1] := example_swap\<lparr>refunded := True\<rparr>)\<rparr>"
    by (simp add: ETHWSUISwap_run_def ETHWSUISwap_refund_def validSwap_def refundable_def
        example_contract_def example_swap_def example_tx_def Let_def)
  have start: "\<not> (is_withdrawn example_safe \<and> is_refunded example_safe)"
    "\<not> (withdrawn (swaps example_contract [1]) \<and> refunded (swaps example_contract [1]))"
    by (simp_all add: example_safe_fields example_contract_fields example_swap_fields)
  have "safe_escrow_run example_safe [SafeWithdraw ''abc'' 2, SafeRefund example_cap 2000] =
      safe_escrow_run (safe_escrow_run example_safe [SafeWithdraw ''abc'' 2])
        [SafeRefund example_cap 2000]"
    by (simp add: safe_escrow_run_def)
  moreover have "ETHWSUISwap_run example_contract
        [SwapRefund (example_tx 3 6000) [1], SwapWithdraw (example_tx 2 4000) [1] example_secret] =
      ETHWSUISwap_run (ETHWSUISwap_run example_contract [SwapRefund (example_tx 3 6000) [1]])
        [SwapWithdraw (example_tx 2 4000) [1] example_secret]"
    by (simp add: ETHWSUISwap_run_def)
  ultimately show ?thesis
    using start
      C4_terminal_flags [of "safe_escrow_run example_safe [SafeWithdraw ''abc'' 2]"
        "[SafeRefund example_cap 2000]"
        "ETHWSUISwap_run example_contract [SwapRefund (example_tx 3 6000) [1]]" "[1]"
        "[SwapWithdraw (example_tx 2 4000) [1] example_secret]"]
    by (auto simp add: sui eth example_safe_fields example_swap_fields)
qed

text \<open>
  C5. The claim: the net amount paid to the participant is
  \<open>floor(A * (10000 - fee_bps) / 10000)\<close> and the fee is \<open>A - net\<close>. The withdrawal of the
  swap of 3 wei at 30 basis points pays all 3 wei to the participant and no fee, where
  the formula of the claim gives a net amount of 2.
\<close>

theorem C5_counterexample:
  "ETHWSUISwap_withdraw example_contract (example_tx 2 4000) [1] example_secret =
     Inr (example_contract\<lparr>swaps := (swaps example_contract)([1] := example_swap\<lparr>withdrawn := True\<rparr>)\<rparr>,
          [PayETH 2 3])
   \<and> locked_amount (swaps example_contract [1]) = 3
   \<and> swapFee example_contract = 30
   \<and> spec_net 3 30 = 2"
  by (simp add: example_withdraw spec_net_def locked_amount_def example_contract_fields
      example_swap_fields)

text \<open>
  C5, amended. A withdrawal that succeeds on a swap with locked amount \<open>A\<close> computes the
  fee \<open>floor(A * swapFee / 10000)\<close> and the net amount \<open>A - fee\<close>; it pays the net amount
  to the participant and, when the fee is positive, the fee to the fee recipient, in the
  asset of the swap; so \<open>fee + net = A\<close> and no unit is lost.
\<close>

theorem C5_fee_split:
  assumes "ETHWSUISwap_withdraw c tx swapId secret = Inr (c', paid)"
  shows "(let swap = swaps c swapId;
              fee = locked_amount swap * swapFee c div 10000;
              net = locked_amount swap - fee
          in fee \<le> locked_amount swap \<and> fee + net = locked_amount swap
             \<and> paid = (if fee > 0
                        then [pay_in swap (participant swap) net, pay_in swap (feeRecipient c) fee]
                        else [pay_in swap (participant swap) net]))"
proof -
  have "withdraw_body c tx ((swaps c swapId)\<lparr>withdrawn := True\<rparr>) = Inr paid"
    using assms by (rule ETHWSUISwap_withdraw_ok)
  from withdraw_body_ok [OF this] show ?thesis
    by (simp add: Let_def)
qed

theorem C5_fee_split_witness:
  "ETHWSUISwap_withdraw example_contract (example_tx 2 4000) [1] example_secret =
     Inr (example_contract\<lparr>swaps := (swaps example_contract)([1] := example_swap\<lparr>withdrawn := True\<rparr>)\<rparr>,
          [PayETH 2 3])
   \<and> locked_amount (swaps example_contract [1]) * swapFee example_contract div 10000 = 0
   \<and> [PayETH 2 3] =
       [pay_in (swaps example_contract [1]) (participant (swaps example_contract [1]))
          (locked_amount (swaps example_contract [1]) - 0)]"
  using C5_fee_split [OF example_withdraw]
  by (simp add: example_withdraw locked_amount_def pay_in_def example_contract_fields
      example_swap_fields)

section \<open>The timeout configuration\<close>

lemma js_get_testnet: "js_get timeout_configs ''testnet'' = Own testnet_config"
  by (simp add: js_get_def timeout_configs_def testnet_config_def)

lemma js_get_other:
  "n \<notin> {''mainnet'', ''testnet'', ''devnet''} \<Longrightarrow>
   js_get timeout_configs n =
     (if n \<in> set object_prototype_properties then Inherited n else Undefined)"
  by (simp add: js_get_def timeout_configs_def)

lemma TimeoutManager_new_testnet:
  "TimeoutManager_new (Some ''testnet'') = \<lparr>network = ''testnet'', config = Own testnet_config\<rparr>"
  by (simp add: TimeoutManager_new_def TimeoutManager_getTimeoutConfig_def js_get_testnet)

lemma TimeoutManager_new_undefined:
  "TimeoutManager_new None = \<lparr>network = ''testnet'', config = Own testnet_config\<rparr>"
  by (simp add: TimeoutManager_new_def TimeoutManager_getTimeoutConfig_def js_get_testnet)

lemma TimeoutManager_new_fallback:
  assumes "n \<notin> {''mainnet'', ''testnet'', ''devnet''}" "n \<notin> set object_prototype_properties"
  shows "TimeoutManager_new (Some n) = \<lparr>network = n, config = Own testnet_config\<rparr>"
  using assms
  by (simp add: TimeoutManager_new_def TimeoutManager_getTimeoutConfig_def js_get_other
      js_get_testnet)

lemma TimeoutManager_new_inherited:
  assumes "n \<in> set object_prototype_properties"
  shows "TimeoutManager_new (Some n) = \<lparr>network = n, config = Inherited n\<rparr>"
proof -
  have "n \<notin> {''mainnet'', ''testnet'', ''devnet''}"
    using assms by (auto simp: object_prototype_properties_def)
  then show ?thesis
    using assms
    by (simp add: TimeoutManager_new_def TimeoutManager_getTimeoutConfig_def js_get_other)
qed

lemma getTimeoutConfig_named:
  assumes "n \<noteq> []"
  shows "getTimeoutConfig cm (Some n) =
     (if n = ''mainnet'' then Own (mainnet_timeouts cm)
      else if n = ''testnet'' then Own (testnet_timeouts cm)
      else if n \<in> set object_prototype_properties then Inherited n
      else Own (testnet_timeouts cm))"
  using assms by (simp add: getTimeoutConfig_def config_timeouts_def js_get_def)

lemma getTimeoutConfig_default:
  "getTimeoutConfig cm None = getTimeoutConfig cm (Some (config_network cm))"
  "getTimeoutConfig cm (Some []) = getTimeoutConfig cm (Some (config_network cm))"
  by (simp_all add: getTimeoutConfig_def)

subsection \<open>Sums of whole doubles\<close>

lemma bit_length_0: "bit_length 0 = 0"
  by (simp add: bit_length.simps)

lemma bit_length_pos: "0 < n \<Longrightarrow> bit_length n = 1 + bit_length (n div 2)"
  by (subst bit_length.simps) simp

lemma bit_length_le: "n < 2 ^ k \<Longrightarrow> bit_length n \<le> k"
proof (induction k arbitrary: n)
  case 0
  then show ?case by (simp add: bit_length_0)
next
  case (Suc k)
  show ?case
  proof (cases "n = 0")
    case True
    then show ?thesis by (simp add: bit_length_0)
  next
    case False
    from Suc.prems have "n div 2 < 2 ^ k" by simp
    then have "bit_length (n div 2) \<le> k" by (rule Suc.IH)
    with False show ?thesis by (simp add: bit_length_pos)
  qed
qed

lemma bit_length_eq: "2 ^ k \<le> n \<Longrightarrow> n < 2 ^ Suc k \<Longrightarrow> bit_length n = Suc k"
proof (induction k arbitrary: n)
  case 0
  then have "n = 1" by simp
  then show ?case by (simp add: bit_length_pos bit_length_0)
next
  case (Suc k)
  from Suc.prems have "2 ^ k \<le> n div 2" "n div 2 < 2 ^ Suc k" by simp_all
  then have "bit_length (n div 2) = Suc k" by (rule Suc.IH)
  moreover from Suc.prems have "0 < n" by (cases "n = 0") simp_all
  ultimately show ?case by (simp add: bit_length_pos)
qed

text \<open>Up to \<open>2 ^ 53\<close> every whole number is a double and the sum is exact.\<close>

lemma round_to_double_exact: "\<bar>x\<bar> < 2 ^ 53 \<Longrightarrow> round_to_double x = x"
proof -
  assume "\<bar>x\<bar> < 2 ^ 53"
  then have "nat \<bar>x\<bar> < 2 ^ 53" by simp
  then have "bit_length (nat \<bar>x\<bar>) \<le> 53" by (rule bit_length_le)
  then have "bit_length (nat \<bar>x\<bar>) - 53 = 0" by simp
  then have "round_to_double x = sgn x * int (nat \<bar>x\<bar>)"
    by (simp add: round_to_double_def)
  also have "\<dots> = x" by (simp add: mult_sgn_abs)
  finally show ?thesis .
qed

lemma js_add_exact: "\<bar>a + b\<bar> < 2 ^ 53 \<Longrightarrow> js_add a b = a + b"
  by (simp add: js_add_def round_to_double_exact)

text \<open>
  Above \<open>2 ^ 53\<close> the sum is rounded: \<open>2 ^ 58 + 300000\<close> lies halfway between two doubles
  and goes to \<open>2 ^ 58 + 300032\<close>.
\<close>

lemma js_add_rounded: "js_add (2 ^ 58) 300000 = 2 ^ 58 + 300032"
proof -
  have "bit_length 288230376152011744 = Suc 58"
    by (rule bit_length_eq) simp_all
  then show ?thesis
    by (simp add: js_add_def round_to_double_def Let_def)
qed

text \<open>
  On a timeout profile and sums below \<open>2 ^ 53\<close>, \<open>validateTimeouts\<close> returns true exactly
  when both timeouts are at least the minimum and the source timeout is strictly greater
  than the destination timeout plus the safety margin; a rounded sum is compared as rounded.
\<close>

lemma validateTimeouts_exact:
  assumes "config tm = Own c" "\<bar>d + safetyMargin c\<bar> < 2 ^ 53"
  shows "validateTimeouts tm s d = Inr True \<longleftrightarrow>
           minTimeout c \<le> s \<and> minTimeout c \<le> d \<and> d + safetyMargin c < s"
  using assms by (auto simp: validateTimeouts_def js_add_exact Let_def)

lemma validateTimeouts_rounded:
  "validateTimeouts (TimeoutManager_new (Some ''testnet'')) (2 ^ 58 + 300032) (2 ^ 58) =
     Inl SafetyMarginNotExceeded"
  using js_add_rounded
  by (simp add: validateTimeouts_def TimeoutManager_new_testnet testnet_config_def)

section \<open>Claims about the timeout configuration\<close>

text \<open>
  C6. The claim: \<open>validateTimeouts\<close> accepts every pair in which both timeouts are at least
  the minimum and the source timeout exceeds the destination timeout by at least the
  safety margin, and throws on all other pairs. On testnet (minimum 120000, margin 300000)
  the pair 600000, 300000 is such a pair, the difference being the margin exactly, and
  \<open>validateTimeouts\<close> throws on it. It is the pair that \<open>calculateOptimalTimeouts()\<close> of
  the same manager returns.
\<close>

theorem C6_margin_exactly_met:
  "config (TimeoutManager_new (Some ''testnet'')) = Own testnet_config
   \<and> claimed_valid testnet_config 600000 300000
   \<and> validateTimeouts (TimeoutManager_new (Some ''testnet'')) 600000 300000 =
       Inl SafetyMarginNotExceeded
   \<and> validateTimeouts (TimeoutManager_new (Some ''testnet'')) 600001 300000 = Inr True
   \<and> calculateOptimalTimeouts (TimeoutManager_new (Some ''testnet'')) None =
       Inr (Some (600000, 300000, 300000))"
  by (simp add: TimeoutManager_new_testnet claimed_valid_def validateTimeouts_def
      calculateOptimalTimeouts_def js_add_exact testnet_config_def)

text \<open>
  C10. The claim: for every network string outside mainnet, testnet and devnet, the empty
  string and undefined included, the timeout configuration falls back to the testnet
  profile. Against it: \<open>ConfigManager.getTimeoutConfig\<close> of the empty string, in a process
  configured for mainnet, returns the mainnet timeouts; and a \<open>TimeoutManager\<close> for the
  network name "constructor" takes the function inherited from \<open>Object.prototype\<close> for
  its configuration, and its getters return undefined.
\<close>

theorem C10_counterexample:
  "getTimeoutConfig mainnet_manager (Some []) = Own \<lparr>source = 10800000, dest = 1800000\<rparr>
   \<and> testnet_timeouts mainnet_manager = \<lparr>source = 1800000, dest = 300000\<rparr>
   \<and> config (TimeoutManager_new (Some ''constructor'')) = Inherited ''constructor''
   \<and> getDefaultSourceTimeout (TimeoutManager_new (Some ''constructor'')) = Inr None
   \<and> getDefaultDestTimeout (TimeoutManager_new (Some ''constructor'')) = Inr None
   \<and> getSafetyMargin (TimeoutManager_new (Some ''constructor'')) = Inr None"
proof -
  have "''constructor'' \<in> set object_prototype_properties"
    by (simp add: object_prototype_properties_def)
  then have "TimeoutManager_new (Some ''constructor'') =
      \<lparr>network = ''constructor'', config = Inherited ''constructor''\<rparr>"
    by (rule TimeoutManager_new_inherited)
  moreover have "getTimeoutConfig mainnet_manager (Some []) =
      Own \<lparr>source = 10800000, dest = 1800000\<rparr>"
    by (simp add: getTimeoutConfig_default getTimeoutConfig_named mainnet_manager_def)
  ultimately show ?thesis
    by (simp add: getDefaultSourceTimeout_def getDefaultDestTimeout_def getSafetyMargin_def
        config_field_def mainnet_manager_def)
qed

text \<open>
  C10, amended. For every network string that is none of mainnet, testnet and devnet and
  is not the name of a property inherited from \<open>Object.prototype\<close>, the empty string
  included, and for undefined, the \<open>TimeoutManager\<close> is constructed with the testnet
  profile and its getters return the testnet values. \<open>ConfigManager.getTimeoutConfig\<close>
  returns the testnet entry for every such non-empty name and for devnet, and for the
  empty string and for undefined it returns what it returns for the configured network.
\<close>

theorem C10_fallback_to_testnet:
  "(n \<notin> {''mainnet'', ''testnet'', ''devnet''} \<and> n \<notin> set object_prototype_properties
      \<longrightarrow> TimeoutManager_new (Some n) = \<lparr>network = n, config = Own testnet_config\<rparr>
          \<and> getDefaultSourceTimeout (TimeoutManager_new (Some n)) = Inr (Some 1800000)
          \<and> getDefaultDestTimeout (TimeoutManager_new (Some n)) = Inr (Some 300000)
          \<and> getSafetyMargin (TimeoutManager_new (Some n)) = Inr (Some 300000))
   \<and> TimeoutManager_new None = \<lparr>network = ''testnet'', config = Own testnet_config\<rparr>
   \<and> (n \<notin> {''mainnet'', ''testnet'', []} \<and> n \<notin> set object_prototype_properties
      \<longrightarrow> getTimeoutConfig cm (Some n) = Own (testnet_timeouts cm))
   \<and> getTimeoutConfig cm None = getTimeoutConfig cm (Some (config_network cm))
   \<and> getTimeoutConfig cm (Some []) = getTimeoutConfig cm (Some (config_network cm))"
  by (auto simp: TimeoutManager_new_fallback TimeoutManager_new_undefined
      getTimeoutConfig_named getTimeoutConfig_default getDefaultSourceTimeout_def
      getDefaultDestTimeout_def getSafetyMargin_def config_field_def testnet_config_def)

theorem C10_fallback_to_testnet_witness:
  "''mainet'' \<notin> {''mainnet'', ''testnet'', ''devnet''}
   \<and> ''mainet'' \<notin> set object_prototype_properties
   \<and> TimeoutManager_new (Some ''mainet'') = \<lparr>network = ''mainet'', config = Own testnet_config\<rparr>
   \<and> getDefaultSourceTimeout (TimeoutManager_new (Some ''mainet'')) = Inr (Some 1800000)
   \<and> getTimeoutConfig mainnet_manager (Some ''mainet'') = Own \<lparr>source = 1800000, dest = 300000\<rparr>"
  using C10_fallback_to_testnet [of "''mainet''" mainnet_manager]
  by (simp add: object_prototype_properties_def mainnet_manager_def getDefaultSourceTimeout_def
      config_field_def testnet_config_def)

section \<open>The retry loops\<close>

lemma retry_from_stop: "\<not> a \<le> retryAttempts rs \<Longrightarrow> retry_from rs ch ok a = []"
  by (subst retry_from.simps) simp

lemma retry_from_ok: "a \<le> retryAttempts rs \<Longrightarrow> ok a \<Longrightarrow> retry_from rs ch ok a = [Submit ch a]"
  by (subst retry_from.simps) simp

lemma retry_from_last:
  "a = retryAttempts rs \<Longrightarrow> \<not> ok a \<Longrightarrow> retry_from rs ch ok a = [Submit ch a]"
  by (subst retry_from.simps) (simp add: retry_from_stop)

lemma retry_from_next:
  "a < retryAttempts rs \<Longrightarrow> \<not> ok a \<Longrightarrow>
   retry_from rs ch ok a = Submit ch a # Delay (retryDelay rs * a) # retry_from rs ch ok (a + 1)"
  by (subst retry_from.simps) simp

lemma retry_induct [case_names stop success final again]:
  assumes "\<And>a. \<not> a \<le> n \<Longrightarrow> P a"
    and "\<And>a. a \<le> n \<Longrightarrow> ok a \<Longrightarrow> P a"
    and "\<And>a. a = n \<Longrightarrow> \<not> ok a \<Longrightarrow> P a"
    and "\<And>a. a < n \<Longrightarrow> \<not> ok a \<Longrightarrow> P (a + 1) \<Longrightarrow> P a"
  shows "P (a::int)"
proof (induction "nat (n + 1 - a)" arbitrary: a rule: less_induct)
  case less
  show ?case
  proof (cases "a \<le> n")
    case False
    then show ?thesis by (rule assms(1))
  next
    case le: True
    show ?thesis
    proof (cases "ok a")
      case True
      with le show ?thesis by (rule assms(2))
    next
      case False
      show ?thesis
      proof (cases "a = n")
        case True
        then show ?thesis using False by (rule assms(3))
      next
        case ne: False
        with le have lt: "a < n" by simp
        then have "nat (n + 1 - (a + 1)) < nat (n + 1 - a)" by simp
        then have "P (a + 1)" by (rule less)
        with lt False show ?thesis by (rule assms(4))
      qed
    qed
  qed
qed

lemma attempts_nonempty:
  "a \<le> retryAttempts rs \<Longrightarrow> attempts (retry_from rs ch ok a) \<noteq> []"
  by (subst retry_from.simps) simp

lemma attempts_bound:
  "int (length (attempts (retry_from rs ch ok a))) \<le> max 0 (retryAttempts rs + 1 - a)"
  by (induction a rule: retry_induct [where n = "retryAttempts rs" and ok = ok])
    (simp_all add: retry_from_stop retry_from_ok retry_from_last retry_from_next)

lemma attempts_all_fail:
  "\<forall>k. \<not> ok k \<Longrightarrow>
   int (length (attempts (retry_from rs ch ok a))) = max 0 (retryAttempts rs + 1 - a)"
  by (induction a rule: retry_induct [where n = "retryAttempts rs" and ok = ok])
    (simp_all add: retry_from_stop retry_from_ok retry_from_last retry_from_next)

lemma attempts_consecutive:
  "attempts (retry_from rs ch ok a) =
     [a..a + int (length (attempts (retry_from rs ch ok a))) - 1]"
proof (induction a rule: retry_induct [where n = "retryAttempts rs" and ok = ok])
  case (again a)
  define L where "L = int (length (attempts (retry_from rs ch ok (a + 1))))"
  have rest: "attempts (retry_from rs ch ok (a + 1)) = [a + 1..a + L]"
  proof -
    have "a + 1 + L - 1 = a + L" by simp
    with again(3) [folded L_def] show ?thesis by simp
  qed
  have "0 \<le> L" by (simp add: L_def)
  then have "[a..a + L] = a # [a + 1..a + L]"
    by (intro upto_rec1) simp
  moreover have "a + int (length (attempts (retry_from rs ch ok a))) - 1 = a + L"
    using again(1,2) by (simp add: retry_from_next L_def)
  ultimately show ?case
    using again(1,2) rest by (simp add: retry_from_next)
qed (simp_all add: retry_from_stop retry_from_ok retry_from_last)

lemma delays_exact:
  "delays (retry_from rs ch ok a) =
     map (\<lambda>k. retryDelay rs * k) [a..a + int (length (attempts (retry_from rs ch ok a))) - 2]"
proof (induction a rule: retry_induct [where n = "retryAttempts rs" and ok = ok])
  case (again a)
  define L where "L = int (length (attempts (retry_from rs ch ok (a + 1))))"
  have rest: "delays (retry_from rs ch ok (a + 1)) = map (\<lambda>k. retryDelay rs * k) [a + 1..a + L - 1]"
  proof -
    have "a + 1 + L - 2 = a + L - 1" by simp
    with again(3) [folded L_def] show ?thesis by simp
  qed
  have "attempts (retry_from rs ch ok (a + 1)) \<noteq> []"
    using again(1) by (intro attempts_nonempty) simp
  then have "1 \<le> L"
    unfolding L_def by (cases "attempts (retry_from rs ch ok (a + 1))") simp_all
  then have "[a..a + L - 1] = a # [a + 1..a + L - 1]"
    by (intro upto_rec1) simp
  moreover have "a + int (length (attempts (retry_from rs ch ok a))) - 2 = a + L - 1"
    using again(1,2) by (simp add: retry_from_next L_def)
  ultimately show ?case
    using again(1,2) rest by (simp add: retry_from_next)
qed (simp_all add: retry_from_stop retry_from_ok retry_from_last)

lemma failed_before_last:
  "k \<in> set (butlast (attempts (retry_from rs ch ok a))) \<Longrightarrow> \<not> ok k"
proof (induction a rule: retry_induct [where n = "retryAttempts rs" and ok = ok])
  case (again a)
  have ne: "attempts (retry_from rs ch ok (a + 1)) \<noteq> []"
    using again(1) by (intro attempts_nonempty) simp
  have "butlast (attempts (retry_from rs ch ok a)) =
        a # butlast (attempts (retry_from rs ch ok (a + 1)))"
    using again(1,2) ne by (simp add: retry_from_next)
  with again(4) have "k = a \<or> k \<in> set (butlast (attempts (retry_from rs ch ok (a + 1))))"
    by simp
  then show ?case
    using again(2,3) by blast
qed (simp_all add: retry_from_stop retry_from_ok retry_from_last)

lemma early_stop_is_success:
  "attempts (retry_from rs ch ok a) \<noteq> [] \<Longrightarrow>
   last (attempts (retry_from rs ch ok a)) < retryAttempts rs \<Longrightarrow>
   ok (last (attempts (retry_from rs ch ok a)))"
proof (induction a rule: retry_induct [where n = "retryAttempts rs" and ok = ok])
  case (again a)
  have ne: "attempts (retry_from rs ch ok (a + 1)) \<noteq> []"
    using again(1) by (intro attempts_nonempty) simp
  have "last (attempts (retry_from rs ch ok a)) = last (attempts (retry_from rs ch ok (a + 1)))"
    using again(1,2) ne by (simp add: retry_from_next)
  with again(3) [OF ne] again(5) show ?case
    by simp
qed (simp_all add: retry_from_stop retry_from_ok retry_from_last)

lemma RelayerService_new_default:
  "retryAttempts (RelayerService_new None) = 3" "retryDelay (RelayerService_new None) = 5000"
  by (simp_all add: RelayerService_new_def)

lemma example_retry_default:
  "retry_from (RelayerService_new None) ch never_resolves 1 =
     [Submit ch 1, Delay 5000, Submit ch 2, Delay 10000, Submit ch 3]"
  by (simp add: retry_from.simps [of _ _ never_resolves] RelayerService_new_def never_resolves_def)

lemma example_retry_six:
  "retry_from (RelayerService_new (Some 6)) ch never_resolves 1 =
     [Submit ch 1, Delay 5000, Submit ch 2, Delay 10000, Submit ch 3, Delay 15000,
      Submit ch 4, Delay 20000, Submit ch 5, Delay 25000, Submit ch 6]"
  by (simp add: retry_from.simps [of _ _ never_resolves] RelayerService_new_def never_resolves_def)

section \<open>Claims about the retry loops\<close>

text \<open>
  C8. The claim: a failed withdraw submission is retried up to the configured number of
  attempts, and the delay before each retry follows exponential backoff, doubling from one
  attempt to the next, with a jitter of 25 percent and a cap. With
  \<open>RELAYER_RETRY_ATTEMPTS=6\<close> and a withdrawal that rejects every time, each loop submits
  six times and waits 5000, 10000, 15000, 20000 and 25000 ms between the submissions:
  \<open>retryDelay * attempt\<close>, on the line that the source comments "Exponential backoff". The
  fourth and fifth waits are outside the 25 percent band of the doubled values 40000 and
  80000, and they are not a cap either, being different.
\<close>

theorem C8_linear_backoff:
  "withdrawFromEthereumSafeWithRetry (RelayerService_new (Some 6)) never_resolves =
     [Submit Ethereum 1, Delay 5000, Submit Ethereum 2, Delay 10000, Submit Ethereum 3,
      Delay 15000, Submit Ethereum 4, Delay 20000, Submit Ethereum 5, Delay 25000,
      Submit Ethereum 6]
   \<and> withdrawFromSuiSafeWithRetry (RelayerService_new (Some 6)) never_resolves =
     [Submit Sui 1, Delay 5000, Submit Sui 2, Delay 10000, Submit Sui 3,
      Delay 15000, Submit Sui 4, Delay 20000, Submit Sui 5, Delay 25000,
      Submit Sui 6]
   \<and> \<not> within_jitter (5000 * 2 ^ 3) 20000
   \<and> \<not> within_jitter (5000 * 2 ^ 4) 25000
   \<and> (20000::int) \<noteq> 25000"
  by (simp add: withdrawFromEthereumSafeWithRetry_def withdrawFromSuiSafeWithRetry_def
      example_retry_six within_jitter_def)

section \<open>The monitoring step\<close>

lemma traverses_revealed_examples:
  "\<not> traverses_revealed False [BOTH_LOCKED, COMPLETED]"
  "\<not> traverses_revealed False [BOTH_LOCKED, RESOLVER_CLAIMED, COMPLETED]"
  "traverses_revealed False [BOTH_LOCKED, USER_CLAIMED, COMPLETED]"
  by simp_all








section \<open>Claims about the monitoring step\<close>



end
